theory Spec2Isabelle
  imports Complex_Main "HOL-Library.Multiset"
begin

section \<open>Python values and exceptions\<close>

text \<open>
  The values that travel through the chatbot are Python objects built by \<open>json.loads\<close>
  or written as literals in the source: \<open>None\<close>, booleans, numbers, strings, lists and
  dictionaries with string keys. A dictionary is an association list; \<open>map_of\<close> is the
  lookup.
\<close>

datatype pyval =
    PNone
  | PBool bool
  | PInt int
  | PFloat real
  | PStr string
  | PList "pyval list"
  | PDict "(string \<times> pyval) list"

text \<open>
  An exception is its class, the constant prefix of the message the raise site gives it
  (the rendered arguments of the f-strings are left out), and its \<open>__cause__\<close>.
\<close>

datatype exn_class =
    JSONDecodeError
  | RuntimeError
  | ValueError
  | TypeError
  | KeyError
  | IndexError
  | AttributeError
  | FileNotFoundError
  | IntegrityError
  | ConnectionError
  | HTTPError
  | RequestException
  | OtherException string

datatype exn = Exn (exn_class: exn_class) (exn_label: string) (exn_cause: "exn option")

text \<open>Truth value testing, as \<open>if x:\<close> and \<open>not x\<close> do it.\<close>

fun truthy :: "pyval \<Rightarrow> bool" where
  "truthy PNone = False"
| "truthy (PBool b) = b"
| "truthy (PInt i) = (i \<noteq> 0)"
| "truthy (PFloat r) = (r \<noteq> 0)"
| "truthy (PStr s) = (s \<noteq> [])"
| "truthy (PList xs) = (xs \<noteq> [])"
| "truthy (PDict kvs) = (kvs \<noteq> [])"

section \<open>The persisted state (chat\_db.py)\<close>

datatype role = User | Assistant

record chat_session =
  sess_id :: string
  sess_created_at :: nat
  sess_updated_at :: nat

record chat_message =
  msg_id :: nat
  msg_session_id :: string
  msg_role :: role
  msg_content :: string
  msg_metadata_json :: "string option"
  msg_created_at :: nat

text \<open>
  The two tables. \<open>messages\<close> is kept in insertion order; \<open>next_id\<close> is the
  auto-increment counter of \<open>messages.id\<close>.
\<close>

record database =
  sessions :: "chat_session list"
  messages :: "chat_message list"
  next_id :: nat

section \<open>Requests sent to the collaborators\<close>

record chat_request =
  req_messages :: "(string \<times> string) list"
  req_model :: string
  req_temperature :: real
  req_max_tokens :: nat

record chunk =
  chunk_text :: string
  chunk_metadata :: pyval
  chunk_distance :: real

record sarvam_payload =
  sp_input :: string
  sp_source_language_code :: string
  sp_target_language_code :: string
  sp_model :: string
  sp_mode :: string
  sp_enable_preprocessing :: bool

section \<open>The environment and the world\<close>

text \<open>
  Everything the repository calls but does not contain is a field of \<open>env\<close>:
  \<^item> \<open>json_dumps\<close>, \<open>json_loads\<close>: Python's \<open>json\<close> module; \<open>Inl\<close> is a
    \<open>JSONDecodeError\<close>;
  \<^item> \<open>utcnow\<close>: the successive readings of \<open>datetime.now(timezone.utc)\<close>, as the
    store keeps them;
  \<^item> \<open>order_by_created_at_asc\<close>, \<open>order_by_created_at_desc\<close>: the row order the
    store answers an \<open>ORDER BY created_at\<close> query with;
  \<^item> \<open>bind_text\<close>: what the database driver does with a value that is not a string
    when it is bound to the \<open>Text\<close> column;
  \<^item> the two API keys of utils/config.py, read from the process environment;
  \<^item> \<open>groq_create\<close>: the generation service, answering with the \<open>message.content\<close>
    of each element of \<open>response.choices\<close>;
  \<^item> \<open>query_vector_db\<close>: the retrieval collaborator;
  \<^item> \<open>sarvam_post\<close>, \<open>asr_post\<close>: the HTTP exchange with the translation and the
    transcription service (post, \<open>raise_for_status\<close>, \<open>json()\<close>), answering with the
    \<open>translated_text\<close> and the \<open>text\<close> field of the body when it has one;
  \<^item> \<open>path_exists\<close>: the file system.
\<close>

record env =
  json_dumps :: "pyval \<Rightarrow> string"
  json_loads :: "string \<Rightarrow> string + pyval"
  utcnow :: "nat \<Rightarrow> nat"
  order_by_created_at_asc :: "chat_message list \<Rightarrow> chat_message list"
  order_by_created_at_desc :: "chat_message list \<Rightarrow> chat_message list"
  bind_text :: "pyval \<Rightarrow> exn + string"
  GROQ_API_KEY :: string
  SARVAM_API_KEY :: string
  groq_create :: "chat_request \<Rightarrow> exn + string option list"
  query_vector_db :: "string \<Rightarrow> int \<Rightarrow> exn + chunk list"
  sarvam_post :: "sarvam_payload \<Rightarrow> exn + string option"
  asr_post :: "string \<Rightarrow> exn + string option"
  path_exists :: "string \<Rightarrow> bool"

text \<open>
  The world is the database together with a log of every call that left the process, so
  that "was the service contacted" is a statement about the log.
\<close>

record world =
  db :: database
  clock_reads :: nat
  llm_calls :: "chat_request list"
  vector_queries :: "(string \<times> int) list"
  sarvam_posts :: "sarvam_payload list"
  asr_posts :: "string list"

section \<open>ChatDatabase\<close>

definition py_json_loads :: "env \<Rightarrow> string \<Rightarrow> exn + pyval" where
  "py_json_loads E s =
     (case json_loads E s of
        Inl m \<Rightarrow> Inl (Exn JSONDecodeError m None)
      | Inr v \<Rightarrow> Inr v)"

text \<open>
  The value bound to the \<open>content\<close> column: a string is stored as it is, anything else
  is the driver's business.
\<close>

definition text_column :: "env \<Rightarrow> pyval \<Rightarrow> exn + string" where
  "text_column E v = (case v of PStr s \<Rightarrow> Inr s | _ \<Rightarrow> bind_text E v)"

text \<open>\<open>db.query(ChatSession).filter_by(id=session_id).first()\<close>\<close>

definition query_session :: "database \<Rightarrow> string \<Rightarrow> chat_session option" where
  "query_session d session_id = find (\<lambda>s. sess_id s = session_id) (sessions d)"

text \<open>
  The \<open>ChatMessage(...)\<close> of \<open>add_message\<close>: the metadata is serialised only when
  it is truthy, and \<open>created_at\<close> is the column default, a reading of the clock.
\<close>

definition new_message :: "env \<Rightarrow> string \<Rightarrow> role \<Rightarrow> string \<Rightarrow> pyval \<Rightarrow> world \<Rightarrow> chat_message" where
  "new_message E session_id r text metadata w =
     \<lparr> msg_id = next_id (db w),
       msg_session_id = session_id,
       msg_role = r,
       msg_content = text,
       msg_metadata_json = (if truthy metadata then Some (json_dumps E metadata) else None),
       msg_created_at = utcnow E (clock_reads w) \<rparr>"

text \<open>
  "Touch the session's updated\_at": the session is looked up, and only a session that was
  found is given a new \<open>updated_at\<close>.
\<close>

definition touch_session :: "env \<Rightarrow> string \<Rightarrow> world \<Rightarrow> world" where
  "touch_session E session_id w =
     (case query_session (db w) session_id of
        None \<Rightarrow> w
      | Some sess \<Rightarrow>
          w \<lparr> db := (db w) \<lparr> sessions :=
                 map (\<lambda>s. if sess_id s = session_id
                          then s \<lparr> sess_updated_at := utcnow E (clock_reads w) \<rparr> else s)
                     (sessions (db w)) \<rparr>,
              clock_reads := Suc (clock_reads w) \<rparr>)"

text \<open>
  \<open>db.commit()\<close>: the row is inserted and gets the next id. \<open>messages.session_id\<close>
  is declared \<open>ForeignKey("sessions.id")\<close>, so the store refuses a row whose session does
  not exist; nothing is written then.
\<close>

definition commit_message :: "chat_message \<Rightarrow> world \<Rightarrow> (exn + nat) \<times> world" where
  "commit_message msg w =
     (case query_session (db w) (msg_session_id msg) of
        None \<Rightarrow> (Inl (Exn IntegrityError ''foreign key constraint fails'' None), w)
      | Some _ \<Rightarrow>
          (Inr (msg_id msg),
           w \<lparr> db := (db w) \<lparr> messages := messages (db w) @ [msg],
                               next_id := Suc (next_id (db w)) \<rparr> \<rparr>))"

text \<open>
  \<open>add_message\<close>: build the row, touch the session, commit. A failed commit leaves the
  tables as they were.
\<close>

definition add_message :: "env \<Rightarrow> string \<Rightarrow> role \<Rightarrow> pyval \<Rightarrow> pyval \<Rightarrow> world \<Rightarrow> (exn + nat) \<times> world" where
  "add_message E session_id r content metadata w =
     (case text_column E content of
        Inl e \<Rightarrow> (Inl e, w)
      | Inr text \<Rightarrow>
          (let msg = new_message E session_id r text metadata w;
               w1 = w \<lparr> clock_reads := Suc (clock_reads w) \<rparr>;
               w2 = touch_session E session_id w1
           in case commit_message msg w2 of
                (Inl e, _) \<Rightarrow> (Inl e, w1)
              | (Inr i, w3) \<Rightarrow> (Inr i, w3)))"

text \<open>\<open>db.query(ChatMessage).filter_by(session_id=session_id)\<close>\<close>

definition session_rows :: "world \<Rightarrow> string \<Rightarrow> chat_message list" where
  "session_rows w session_id = filter (\<lambda>m. msg_session_id m = session_id) (messages (db w))"

record turn =
  turn_role :: role
  turn_content :: string

definition turn_of :: "chat_message \<Rightarrow> turn" where
  "turn_of m = \<lparr> turn_role = msg_role m, turn_content = msg_content m \<rparr>"

text \<open>
  The rows of \<open>get_recent_messages\<close> after \<open>msgs.reverse()\<close>: the query orders by
  \<open>created_at\<close> descending and keeps \<open>limit\<close> rows. The limit is a number of rows, a
  natural number: SQL has no negative \<open>LIMIT\<close>.
\<close>

definition recent_rows :: "env \<Rightarrow> string \<Rightarrow> nat \<Rightarrow> world \<Rightarrow> chat_message list" where
  "recent_rows E session_id limit w =
     (let msgs = take limit (order_by_created_at_desc E (session_rows w session_id))
      in rev msgs)"

definition get_recent_messages :: "env \<Rightarrow> string \<Rightarrow> nat \<Rightarrow> world \<Rightarrow> turn list" where
  "get_recent_messages E session_id limit w = map turn_of (recent_rows E session_id limit w)"

text \<open>
  An element of the list \<open>get_session_history\<close> returns. \<open>h_created_at\<close> is the instant
  itself; its rendering by \<open>isoformat()\<close> is left out.
\<close>

record history_entry =
  h_id :: nat
  h_role :: role
  h_content :: string
  h_metadata :: pyval
  h_created_at :: "nat option"

text \<open>\<open>json.loads(m.metadata_json) if m.metadata_json else None\<close>\<close>

definition entry_metadata :: "env \<Rightarrow> string option \<Rightarrow> exn + pyval" where
  "entry_metadata E mj =
     (case mj of
        None \<Rightarrow> Inr PNone
      | Some s \<Rightarrow> if s = [] then Inr PNone else py_json_loads E s)"

definition entry_of :: "env \<Rightarrow> chat_message \<Rightarrow> exn + history_entry" where
  "entry_of E m =
     (case entry_metadata E (msg_metadata_json m) of
        Inl e \<Rightarrow> Inl e
      | Inr md \<Rightarrow>
          Inr \<lparr> h_id = msg_id m, h_role = msg_role m, h_content = msg_content m,
                h_metadata = md, h_created_at = Some (msg_created_at m) \<rparr>)"


text \<open>The list comprehension of \<open>get_session_history\<close>: the first row that raises ends it.\<close>

fun entries_of :: "env \<Rightarrow> chat_message list \<Rightarrow> exn + history_entry list" where
  "entries_of E [] = Inr []"
| "entries_of E (m # ms) =
     (case entry_of E m of
        Inl e \<Rightarrow> Inl e
      | Inr x \<Rightarrow> (case entries_of E ms of Inl e \<Rightarrow> Inl e | Inr xs \<Rightarrow> Inr (x # xs)))"

definition get_session_history :: "env \<Rightarrow> string \<Rightarrow> world \<Rightarrow> exn + history_entry list" where
  "get_session_history E session_id w =
     entries_of E (order_by_created_at_asc E (session_rows w session_id))"

text \<open>
  What SQL promises of \<open>ORDER BY created_at\<close>: the answer holds the same rows, in
  non-decreasing (\<open>ASC\<close>) or non-increasing (\<open>DESC\<close>) order of the key. The order of rows
  with equal keys is the store's choice.
\<close>

definition sql_asc :: "chat_message list \<Rightarrow> chat_message list \<Rightarrow> bool" where
  "sql_asc rows res \<longleftrightarrow> mset res = mset rows \<and> sorted (map msg_created_at res)"


section \<open>Strings\<close>

text \<open>\<open>sep.join(xs)\<close>\<close>

fun join :: "string \<Rightarrow> string list \<Rightarrow> string" where
  "join sep [] = []"
| "join sep [x] = x"
| "join sep (x # y # ys) = x @ sep @ join sep (y # ys)"

definition nl :: string where
  "nl = [CHR 0x0A]"

text \<open>
  \<open>str.strip()\<close> removes the leading and trailing whitespace; these are the code points
  below 256 for which \<open>str.isspace\<close> holds.
\<close>

definition is_space :: "char \<Rightarrow> bool" where
  "is_space c \<longleftrightarrow> c \<in> set [CHR 0x09, CHR 0x0A, CHR 0x0B, CHR 0x0C, CHR 0x0D,
                             CHR 0x1C, CHR 0x1D, CHR 0x1E, CHR 0x1F, CHR 0x20, CHR 0x85, CHR 0xA0]"

definition strip :: "string \<Rightarrow> string" where
  "strip s = rev (dropWhile is_space (rev (dropWhile is_space s)))"


text \<open>\<open>p in s\<close> on strings: \<open>p\<close> occurs in \<open>s\<close>.\<close>

fun is_substring :: "string \<Rightarrow> string \<Rightarrow> bool" where
  "is_substring p [] = (p = [])"
| "is_substring p (c # cs) = (take (length p) (c # cs) = p \<or> is_substring p cs)"

text \<open>The decimal rendering of a number in an f-string.\<close>

fun str_nat :: "nat \<Rightarrow> string" where
  "str_nat n =
     (if n < 10 then [''0123456789'' ! n]
      else str_nat (n div 10) @ [''0123456789'' ! (n mod 10)])"

section \<open>Operators on Python values\<close>

text \<open>
  \<open>k in v\<close> for a string \<open>k\<close>: a key of a dictionary, an element of a list, a substring
  of a string; any other value is not iterable.
\<close>

fun py_contains :: "string \<Rightarrow> pyval \<Rightarrow> exn + bool" where
  "py_contains k (PDict kvs) = Inr (map_of kvs k \<noteq> None)"
| "py_contains k (PList xs) = Inr (List.member xs (PStr k))"
| "py_contains k (PStr s) = Inr (is_substring k s)"
| "py_contains k _ = Inl (Exn TypeError ''argument is not iterable'' None)"

text \<open>\<open>v[k]\<close> for a string \<open>k\<close>.\<close>

fun py_getitem :: "pyval \<Rightarrow> string \<Rightarrow> exn + pyval" where
  "py_getitem (PDict kvs) k =
     (case map_of kvs k of None \<Rightarrow> Inl (Exn KeyError k None) | Some v \<Rightarrow> Inr v)"
| "py_getitem (PList xs) k = Inl (Exn TypeError ''list indices must be integers or slices, not str'' None)"
| "py_getitem (PStr s) k = Inl (Exn TypeError ''string indices must be integers'' None)"
| "py_getitem _ k = Inl (Exn TypeError ''object is not subscriptable'' None)"

section \<open>Configuration (utils/config.py)\<close>

definition LLM_MODEL_NAME :: string where
  "LLM_MODEL_NAME = ''llama-3.3-70b-versatile''"

definition TOP_K_RETRIEVAL :: int where
  "TOP_K_RETRIEVAL = 2"

definition SLIDING_WINDOW_SIZE :: nat where
  "SLIDING_WINDOW_SIZE = 10"

section \<open>Pipeline adapters (task4\_translation.py, task5\_rag\_pipeline.py)\<close>





definition step3_retrieve :: "env \<Rightarrow> string \<Rightarrow> int \<Rightarrow> world \<Rightarrow> (exn + chunk list) \<times> world" where
  "step3_retrieve E query top_k w =
     (query_vector_db E query top_k,
      w \<lparr> vector_queries := vector_queries w @ [(query, top_k)] \<rparr>)"

section \<open>VoiceChatbot (chatbot.py)\<close>

definition HISTORY_PROMPT :: string where
  \<open>HISTORY_PROMPT = join nl [
       ''You are a helpful assistant that answers questions using conversation history.'',
       '''',
       ''You will be given the recent conversation history and a new user question.'',
       ''Try to answer the question using ONLY the information available in the conversation history.'',
       '''',
       ''IMPORTANT: You MUST respond with a valid JSON object in one of these two formats:'',
       '''',
       ''If you CAN answer from the conversation history:'',
       ''{"status": "success", "content": "<your answer here>"}'',
       '''',
       ''If you CANNOT answer because the history doesn't contain enough information:'',
       ''{"status": "failure", "content": "Need more context"}'',
       '''',
       ''Rules:'',
       ''- Only return the JSON object, nothing else.'',
       ''- Do NOT make up information not present in the history.'',
       ''- If the question is a follow-up that can be answered from prior messages, return success.'',
       ''- If the question is about something not discussed before, return failure.'']\<close>

definition RETRIEVAL_PROMPT :: string where
  \<open>RETRIEVAL_PROMPT = join nl [
       ''You are a helpful assistant that answers questions based on the provided context.'',
       '''',
       ''You will be given:'',
       ''1. Recent conversation history (for follow-up context)'',
       ''2. Retrieved information from a knowledge base'',
       '''',
       ''Use the retrieved information to answer the question. You may also use the'',
       ''conversation history for understanding context. Keep your answer concise and accurate.'',
       ''If the answer is not in the provided information, say so.'']\<close>

definition get_client :: "env \<Rightarrow> exn + unit" where
  "get_client E =
     (if GROQ_API_KEY E = []
      then Inl (Exn ValueError ''GROQ_API_KEY not set. Add it to your .env file. Sign up at https://console.groq.com/ for free.'' None)
      else Inr ())"

definition format_history :: "turn list \<Rightarrow> string" where
  "format_history history =
     join nl (map (\<lambda>m. (if turn_role m = User then ''User'' else ''Assistant'') @ '': '' @ turn_content m)
                  history)"

text \<open>
  \<open>self._get_client().chat.completions.create(...)\<close> followed by
  \<open>response.choices[0].message.content.strip()\<close>. The request is logged once the client
  exists, whatever the service answers.
\<close>

definition create_completion :: "env \<Rightarrow> chat_request \<Rightarrow> world \<Rightarrow> (exn + string) \<times> world" where
  "create_completion E req w =
     (case get_client E of
        Inl e \<Rightarrow> (Inl e, w)
      | Inr _ \<Rightarrow>
          (let w' = w \<lparr> llm_calls := llm_calls w @ [req] \<rparr>
           in case groq_create E req of
                Inl e \<Rightarrow> (Inl e, w')
              | Inr [] \<Rightarrow> (Inl (Exn IndexError ''list index out of range'' None), w')
              | Inr (None # _) \<Rightarrow> (Inl (Exn AttributeError ''NoneType object has no attribute strip'' None), w')
              | Inr (Some content # _) \<Rightarrow> (Inr (strip content), w')))"

definition failure_result :: pyval where
  "failure_result = PDict [(''status'', PStr ''failure''), (''content'', PStr ''Need more context'')]"

definition history_request :: "string \<Rightarrow> turn list \<Rightarrow> chat_request" where
  "history_request question history =
     (let user_prompt =
            ''Conversation history:'' @ nl @ format_history history @ nl @ nl
            @ ''New question: '' @ question @ nl @ nl
            @ ''Respond with JSON:''
      in \<lparr> req_messages = [(''system'', HISTORY_PROMPT), (''user'', user_prompt)],
           req_model = LLM_MODEL_NAME,
           req_temperature = 2 / 10,
           req_max_tokens = 512 \<rparr>)"

text \<open>\<open>"status" not in result or "content" not in result\<close>, evaluated left to right.\<close>

definition lacks_field :: "pyval \<Rightarrow> exn + bool" where
  "lacks_field result =
     (case py_contains ''status'' result of
        Inl e \<Rightarrow> Inl e
      | Inr has_status \<Rightarrow>
          if \<not> has_status then Inr True
          else (case py_contains ''content'' result of
                  Inl e \<Rightarrow> Inl e
                | Inr has_content \<Rightarrow> Inr (\<not> has_content)))"

text \<open>
  The body of the \<open>try\<close> of \<open>try_answer_from_history\<close>. The last step is the
  \<open>result['status']\<close> of the log line before \<open>return result\<close>.
\<close>

definition phase1_try :: "env \<Rightarrow> chat_request \<Rightarrow> world \<Rightarrow> (exn + pyval) \<times> world" where
  "phase1_try E req w =
     (case create_completion E req w of
        (Inl e, w') \<Rightarrow> (Inl e, w')
      | (Inr raw, w') \<Rightarrow>
          (case py_json_loads E raw of
             Inl e \<Rightarrow> (Inl e, w')
           | Inr result \<Rightarrow>
               (case lacks_field result of
                  Inl e \<Rightarrow> (Inl e, w')
                | Inr True \<Rightarrow> (Inr failure_result, w')
                | Inr False \<Rightarrow>
                    (case py_getitem result ''status'' of
                       Inl e \<Rightarrow> (Inl e, w')
                     | Inr _ \<Rightarrow> (Inr result, w')))))"

text \<open>
  The two handlers: \<open>except json.JSONDecodeError\<close> returns the failure value,
  \<open>except Exception as e\<close> raises \<open>RuntimeError(f"LLM error: {e}") from e\<close>.
\<close>

definition try_answer_from_history :: "env \<Rightarrow> string \<Rightarrow> turn list \<Rightarrow> world \<Rightarrow> (exn + pyval) \<times> world" where
  "try_answer_from_history E question history w =
     (if history = [] then (Inr failure_result, w)
      else
        case phase1_try E (history_request question history) w of
          (Inr result, w') \<Rightarrow> (Inr result, w')
        | (Inl e, w') \<Rightarrow>
            (if exn_class e = JSONDecodeError then Inr failure_result
             else Inl (Exn RuntimeError ''LLM error: '' (Some e)), w'))"

definition retrieval_request :: "string \<Rightarrow> turn list \<Rightarrow> chunk list \<Rightarrow> chat_request" where
  "retrieval_request question history chunks =
     (let context = join (nl @ nl @ ''---'' @ nl @ nl)
                      (map (\<lambda>(i, c). ''[Chunk '' @ str_nat (i + 1) @ '']'' @ nl @ chunk_text c)
                           (zip [0..<length chunks] chunks));
          history_text =
            (if history = [] then []
             else ''Recent conversation:'' @ nl
                  @ format_history (drop (length history - 6) history) @ nl @ nl);
          user_prompt =
            history_text
            @ ''Retrieved context:'' @ nl @ context @ nl @ nl
            @ ''Question: '' @ question @ nl @ nl
            @ ''Answer:''
      in \<lparr> req_messages = [(''system'', RETRIEVAL_PROMPT), (''user'', user_prompt)],
           req_model = LLM_MODEL_NAME,
           req_temperature = 3 / 10,
           req_max_tokens = 512 \<rparr>)"

definition answer_with_retrieval :: "env \<Rightarrow> string \<Rightarrow> turn list \<Rightarrow> int \<Rightarrow> world \<Rightarrow> (exn + string \<times> chunk list) \<times> world" where
  "answer_with_retrieval E question history top_k w =
     (case step3_retrieve E question top_k w of
        (Inl e, w1) \<Rightarrow> (Inl e, w1)
      | (Inr chunks, w1) \<Rightarrow>
          (case create_completion E (retrieval_request question history chunks) w1 of
             (Inl e, w2) \<Rightarrow> (Inl e, w2)
           | (Inr answer, w2) \<Rightarrow> (Inr (answer, chunks), w2)))"

text \<open>
  The block that \<open>run\<close> and \<open>run_text\<close> share word for word: phase 1, then the test
  \<open>result["status"] == "success"\<close>, then either the history answer or the fall back to
  the vector database. It yields \<open>answer\<close>, \<open>source\<close> and \<open>chunks\<close>.
\<close>

definition answer_question :: "env \<Rightarrow> string \<Rightarrow> turn list \<Rightarrow> world \<Rightarrow> (exn + pyval \<times> string \<times> chunk list option) \<times> world" where
  "answer_question E question history w =
     (case try_answer_from_history E question history w of
        (Inl e, w1) \<Rightarrow> (Inl e, w1)
      | (Inr result, w1) \<Rightarrow>
          (case py_getitem result ''status'' of
             Inl e \<Rightarrow> (Inl e, w1)
           | Inr status \<Rightarrow>
               if status = PStr ''success''
               then (case py_getitem result ''content'' of
                       Inl e \<Rightarrow> (Inl e, w1)
                     | Inr answer \<Rightarrow> (Inr (answer, ''history'', None), w1))
               else (case answer_with_retrieval E question history TOP_K_RETRIEVAL w1 of
                       (Inl e, w2) \<Rightarrow> (Inl e, w2)
                     | (Inr (answer, chunks), w2) \<Rightarrow> (Inr (PStr answer, ''vectordb'', Some chunks), w2))))"

text \<open>\<open>{"source": source, "chunks_used": len(chunks) if chunks else 0}\<close>\<close>

definition assistant_metadata :: "string \<Rightarrow> chunk list option \<Rightarrow> pyval" where
  "assistant_metadata source chunks =
     PDict [(''source'', PStr source),
            (''chunks_used'', PInt (case chunks of None \<Rightarrow> 0 | Some cs \<Rightarrow> int (length cs)))]"

text \<open>The two \<open>add_message\<close> calls under "Persist messages".\<close>

definition persist_messages :: "env \<Rightarrow> string \<Rightarrow> string \<Rightarrow> pyval \<Rightarrow> pyval \<Rightarrow> string \<Rightarrow> chunk list option \<Rightarrow> world \<Rightarrow> (exn + unit) \<times> world" where
  "persist_messages E session_id question user_metadata answer source chunks w =
     (case add_message E session_id User (PStr question) user_metadata w of
        (Inl e, w1) \<Rightarrow> (Inl e, w1)
      | (Inr _, w1) \<Rightarrow>
          (case add_message E session_id Assistant answer (assistant_metadata source chunks) w1 of
             (Inl e, w2) \<Rightarrow> (Inl e, w2)
           | (Inr _, w2) \<Rightarrow> (Inr (), w2)))"


record run_text_result =
  rt_answer :: pyval
  rt_source :: string
  rt_retrieved_chunks :: "chunk list option"


definition run_text :: "env \<Rightarrow> string \<Rightarrow> string \<Rightarrow> world \<Rightarrow> (exn + run_text_result) \<times> world" where
  "run_text E message session_id w =
     (let history = get_recent_messages E session_id SLIDING_WINDOW_SIZE w
      in case answer_question E message history w of
        (Inl e, w1) \<Rightarrow> (Inl e, w1)
      | (Inr (answer, source, chunks), w1) \<Rightarrow>
     (case persist_messages E session_id message
             (PDict [(''input_type'', PStr ''text'')])
             answer source chunks w1 of
        (Inl e, w2) \<Rightarrow> (Inl e, w2)
      | (Inr _, w2) \<Rightarrow>
          (Inr \<lparr> rt_answer = answer, rt_source = source, rt_retrieved_chunks = chunks \<rparr>, w2)))"

section \<open>The spec's notion of an English tag\<close>



section \<open>Concrete environments and worlds\<close>

text \<open>
  The examples run the definitions on a concrete environment. The \<open>json\<close> module is given
  by its values on the texts that occur in the examples; the store sorts stably, so that
  rows with equal \<open>created_at\<close> keep their insertion order in both directions; the
  generation service answers \<open>phase1\<close> to the request with temperature 0.2 (phase 1) and a
  fixed sentence to any other.
\<close>

definition ex_dumps :: "pyval \<Rightarrow> string" where
  \<open>ex_dumps v = (if v = PDict [(''a'', PInt 1)] then ''{"a": 1}'' else ''null'')\<close>

definition ex_success_response :: string where
  \<open>ex_success_response = ''{"status": "success", "content": "Paris"}''\<close>

definition ex_partial_response :: string where
  \<open>ex_partial_response = ''{"status": "partial", "content": "Paris"}''\<close>

definition ex_loads :: "string \<Rightarrow> string + pyval" where
  \<open>ex_loads s =
     (if s = ''{"a": 1}'' then Inr (PDict [(''a'', PInt 1)])
      else if s = ''null'' then Inr PNone
      else if s = ''42'' then Inr (PInt 42)
      else if s = ex_success_response
        then Inr (PDict [(''status'', PStr ''success''), (''content'', PStr ''Paris'')])
      else if s = ex_partial_response
        then Inr (PDict [(''status'', PStr ''partial''), (''content'', PStr ''Paris'')])
      else if s = ''{"status": "success"}''
        then Inr (PDict [(''status'', PStr ''success'')])
      else Inl ''Expecting value'')\<close>

definition stable_asc :: "chat_message list \<Rightarrow> chat_message list" where
  "stable_asc rows = sort_key msg_created_at rows"

definition stable_desc :: "chat_message list \<Rightarrow> chat_message list" where
  "stable_desc rows = rev (sort_key msg_created_at (rev rows))"

definition ex_chunks :: "chunk list" where
  "ex_chunks = [\<lparr> chunk_text = ''Paris is the capital of France.'', chunk_metadata = PNone,
                 chunk_distance = 1 / 4 \<rparr>]"

definition ex_env :: "(exn + string option list) \<Rightarrow> env" where
  "ex_env phase1 =
     \<lparr> json_dumps = ex_dumps,
       json_loads = ex_loads,
       utcnow = (\<lambda>n. 100 + n),
       order_by_created_at_asc = stable_asc,
       order_by_created_at_desc = stable_desc,
       bind_text = (\<lambda>v. Inl (Exn TypeError ''cannot bind parameter'' None)),
       GROQ_API_KEY = ''gsk-example'',
       SARVAM_API_KEY = ''sarvam-example'',
       groq_create = (\<lambda>req. if req_temperature req = 2 / 10 then phase1
                             else Inr [Some ''It is Paris.'']),
       query_vector_db = (\<lambda>q k. Inr ex_chunks),
       sarvam_post = (\<lambda>p. Inr (Some ''What is the capital of France?'')),
       asr_post = (\<lambda>p. Inr (Some ''France ki rajdhani kya hai?'')),
       path_exists = (\<lambda>p. True) \<rparr>"

definition ex_session :: chat_session where
  "ex_session = \<lparr> sess_id = ''s1'', sess_created_at = 1, sess_updated_at = 1 \<rparr>"

definition ex_world :: "chat_message list \<Rightarrow> world" where
  "ex_world rows =
     \<lparr> db = \<lparr> sessions = [ex_session], messages = rows, next_id = Suc (length rows) \<rparr>,
       clock_reads = 0, llm_calls = [], vector_queries = [], sarvam_posts = [], asr_posts = [] \<rparr>"




section \<open>Facts about the persistence layer\<close>

lemma query_session_None_iff:
  "query_session d sid = None \<longleftrightarrow> sid \<notin> sess_id ` set (sessions d)"
  by (auto simp: query_session_def find_None_iff)

lemma sess_ids_touch:
  "sess_id ` set (sessions (db (touch_session E sid w))) = sess_id ` set (sessions (db w))"
proof (cases "query_session (db w) sid")
  case None
  then show ?thesis by (simp add: touch_session_def)
next
  case (Some s)
  have "map sess_id (map (\<lambda>s. if sess_id s = sid
            then s \<lparr> sess_updated_at := utcnow E (clock_reads w) \<rparr> else s) (sessions (db w)))
        = map sess_id (sessions (db w))"
    by (induction "sessions (db w)") auto
  then have "set (map sess_id (sessions (db (touch_session E sid w)))) = set (map sess_id (sessions (db w)))"
    using Some by (simp add: touch_session_def)
  then show ?thesis by (simp only: set_map)
qed

lemma query_session_touch:
  "query_session (db (touch_session E sid w)) sid' = None \<longleftrightarrow> query_session (db w) sid' = None"
  by (simp add: query_session_None_iff sess_ids_touch)

lemma messages_touch: "messages (db (touch_session E sid w)) = messages (db w)"
  by (simp add: touch_session_def split: option.splits)

lemma next_id_touch: "next_id (db (touch_session E sid w)) = next_id (db w)"
  by (simp add: touch_session_def split: option.splits)

lemma add_message_Inr:
  assumes "add_message E sid r c md w = (Inr i, w')"
  shows "\<exists>body. text_column E c = Inr body \<and> query_session (db w) sid \<noteq> None
           \<and> i = next_id (db w)
           \<and> messages (db w') = messages (db w) @ [new_message E sid r body md w]
           \<and> next_id (db w') = Suc (next_id (db w))"
proof (cases "text_column E c")
  case (Inl e)
  with assms show ?thesis by (simp add: add_message_def)
next
  case (Inr body)
  let ?msg = "new_message E sid r body md w"
  let ?w2 = "touch_session E sid (w\<lparr>clock_reads := Suc (clock_reads w)\<rparr>)"
  have sid: "msg_session_id ?msg = sid" and mid: "msg_id ?msg = next_id (db w)"
    by (simp_all add: new_message_def)
  have q: "query_session (db ?w2) sid = None \<longleftrightarrow> query_session (db w) sid = None"
    by (simp add: query_session_touch)
  show ?thesis
  proof (cases "query_session (db w) sid")
    case None
    with q have "query_session (db ?w2) sid = None" by simp
    with assms Inr sid show ?thesis
      by (simp add: add_message_def commit_message_def Let_def)
  next
    case (Some s)
    with q obtain s' where s': "query_session (db ?w2) sid = Some s'" by auto
    from assms Inr sid s' have "i = msg_id ?msg"
      and "w' = ?w2 \<lparr> db := (db ?w2) \<lparr> messages := messages (db ?w2) @ [?msg],
                               next_id := Suc (next_id (db ?w2)) \<rparr> \<rparr>"
      by (simp_all add: add_message_def commit_message_def Let_def)
    with Inr Some mid show ?thesis
      by (simp add: messages_touch next_id_touch)
  qed
qed

lemma entries_of_Inr:
  "entries_of E ms = Inr h \<Longrightarrow> list_all2 (\<lambda>m e. entry_of E m = Inr e) ms h"
  by (induction ms arbitrary: h) (auto split: sum.splits)



lemma entry_of_fields:
  "entry_of E m = Inr e \<Longrightarrow>
     h_id e = msg_id m \<and> h_role e = msg_role m \<and> h_content e = msg_content m
     \<and> entry_metadata E (msg_metadata_json m) = Inr (h_metadata e)"
  by (auto simp: entry_of_def split: sum.splits)

lemma session_rows_append:
  "messages (db w') = messages (db w) @ [m] \<Longrightarrow>
   session_rows w' sid = session_rows w sid @ (if msg_session_id m = sid then [m] else [])"
  by (simp add: session_rows_def)

lemma history_of_appended:
  assumes add: "add_message E sid r c md w = (Inr i, w')"
    and fresh: "\<forall>m \<in> set (messages (db w)). msg_id m \<noteq> next_id (db w)"
    and ord: "sql_asc (session_rows w' sid) (order_by_created_at_asc E (session_rows w' sid))"
    and hist: "get_session_history E sid w' = Inr h"
  shows "\<exists>body. text_column E c = Inr body
           \<and> messages (db w') = messages (db w) @ [new_message E sid r body md w]
           \<and> (\<exists>e \<in> set h. h_id e = i)
           \<and> (\<forall>e \<in> set h. h_id e = i \<longrightarrow> entry_of E (new_message E sid r body md w) = Inr e)"
proof -
  from add_message_Inr [OF add] obtain body where
    b: "text_column E c = Inr body" and i: "i = next_id (db w)"
    and ms: "messages (db w') = messages (db w) @ [new_message E sid r body md w]"
    by blast
  let ?m = "new_message E sid r body md w"
  let ?q = "order_by_created_at_asc E (session_rows w' sid)"
  have msid: "msg_session_id ?m = sid" and mid: "msg_id ?m = i"
    by (simp_all add: new_message_def i)
  have rows: "session_rows w' sid = session_rows w sid @ [?m]"
    using session_rows_append [OF ms, of sid] msid by simp
  from ord have "mset ?q = mset (session_rows w' sid)" by (simp add: sql_asc_def)
  then have setq: "set ?q = set (session_rows w sid) \<union> {?m}"
    using rows by (metis Un_insert_right list.set(1) list.simps(15) mset_eq_setD set_append sup_bot.right_neutral)
  from hist have la: "list_all2 (\<lambda>m e. entry_of E m = Inr e) ?q h"
    by (simp add: get_session_history_def entries_of_Inr)
  have old: "msg_id m \<noteq> i" if "m \<in> set (session_rows w sid)" for m
    using that fresh i by (auto simp: session_rows_def)
  have ex: "\<exists>e \<in> set h. h_id e = i"
  proof -
    have "?m \<in> set ?q" using setq by simp
    then obtain k where k: "k < length ?q" "?q ! k = ?m" by (auto simp: in_set_conv_nth)
    with la have "entry_of E ?m = Inr (h ! k)" and "k < length h"
      by (auto simp: list_all2_conv_all_nth)
    then have "h ! k \<in> set h" and "h_id (h ! k) = i"
      using mid by (auto dest: entry_of_fields)
    then show ?thesis by blast
  qed
  have all: "entry_of E ?m = Inr e" if e: "e \<in> set h" "h_id e = i" for e
  proof -
    from e(1) obtain k where k: "k < length h" "h ! k = e" by (auto simp: in_set_conv_nth)
    with la have kq: "k < length ?q" and en: "entry_of E (?q ! k) = Inr e"
      by (auto simp: list_all2_conv_all_nth)
    from en e(2) have "msg_id (?q ! k) = i"
      by (auto dest: entry_of_fields)
    moreover have "?q ! k \<in> set ?q" using kq by simp
    ultimately have "?q ! k = ?m" using setq old by auto
    with en show ?thesis by simp
  qed
  from b ms ex all show ?thesis by blast
qed


section \<open>Appending to a session that does not exist\<close>



section \<open>Metadata that is an empty dictionary\<close>

text \<open>
  Claim C10. A message appended by \<open>add_message\<close> with the empty dictionary as metadata is
  stored with \<open>metadata_json\<close> NULL, because \<open>{}\<close> is falsy, and \<open>get_session_history\<close>
  returns \<open>None\<close> as the metadata of that message, not an empty dictionary.
\<close>

theorem empty_metadata_reads_back_None:
  assumes add: "add_message E session_id r content (PDict []) w = (Inr i, w')"
    and fresh: "\<forall>m \<in> set (messages (db w)). msg_id m \<noteq> next_id (db w)"
    and ord: "sql_asc (session_rows w' session_id)
                (order_by_created_at_asc E (session_rows w' session_id))"
    and hist: "get_session_history E session_id w' = Inr h"
  shows "(\<exists>m. messages (db w') = messages (db w) @ [m] \<and> msg_id m = i
              \<and> msg_metadata_json m = None)
       \<and> (\<exists>e \<in> set h. h_id e = i)
       \<and> (\<forall>e \<in> set h. h_id e = i \<longrightarrow> h_metadata e = PNone)"
proof -
  from history_of_appended [OF add fresh ord hist] obtain body where
    ms: "messages (db w') = messages (db w) @ [new_message E session_id r body (PDict []) w]"
    and ex: "\<exists>e \<in> set h. h_id e = i"
    and all: "\<forall>e \<in> set h. h_id e = i \<longrightarrow>
                entry_of E (new_message E session_id r body (PDict []) w) = Inr e"
    by blast
  let ?m = "new_message E session_id r body (PDict []) w"
  from add_message_Inr [OF add] have i: "i = next_id (db w)" by blast
  have mj: "msg_metadata_json ?m = None" and mid: "msg_id ?m = i"
    by (simp_all add: new_message_def i)
  have "h_metadata e = PNone" if "entry_of E ?m = Inr e" for e
    using entry_of_fields [OF that] mj by (simp add: entry_metadata_def)
  with ms mj mid ex all show ?thesis by blast
qed

lemma ex_env_simps:
  "json_dumps (ex_env p) = ex_dumps"
  "json_loads (ex_env p) = ex_loads"
  "utcnow (ex_env p) = (\<lambda>n. 100 + n)"
  "order_by_created_at_asc (ex_env p) = stable_asc"
  "order_by_created_at_desc (ex_env p) = stable_desc"
  "bind_text (ex_env p) = (\<lambda>v. Inl (Exn TypeError ''cannot bind parameter'' None))"
  "GROQ_API_KEY (ex_env p) = ''gsk-example''"
  "SARVAM_API_KEY (ex_env p) = ''sarvam-example''"
  "groq_create (ex_env p) = (\<lambda>req. if req_temperature req = 2 / 10 then p
                             else Inr [Some ''It is Paris.''])"
  "query_vector_db (ex_env p) = (\<lambda>q k. Inr ex_chunks)"
  "sarvam_post (ex_env p) = (\<lambda>p. Inr (Some ''What is the capital of France?''))"
  "asr_post (ex_env p) = (\<lambda>p. Inr (Some ''France ki rajdhani kya hai?''))"
  "path_exists (ex_env p) = (\<lambda>p. True)"
  by (simp_all add: ex_env_def)

lemma ex_add2:
  "add_message (ex_env (Inr [])) ''s1'' User (PStr ''Hi'') md (ex_world [])
     = (Inr 1, ex_world [] \<lparr> db := \<lparr> sessions = [ex_session \<lparr> sess_updated_at := 101 \<rparr>],
                        messages = [\<lparr> msg_id = 1, msg_session_id = ''s1'', msg_role = User,
                                     msg_content = ''Hi'',
                                     msg_metadata_json = (if truthy md then Some (ex_dumps md) else None),
                                     msg_created_at = 100 \<rparr>],
                        next_id = 2 \<rparr>,
                 clock_reads := 2 \<rparr>)"
  by (simp add: add_message_def text_column_def new_message_def touch_session_def
      commit_message_def query_session_def ex_world_def ex_env_simps ex_session_def Let_def)

theorem empty_metadata_reads_back_None_witness:
  "fst (add_message (ex_env (Inr [])) ''s1'' User (PStr ''Hi'') (PDict []) (ex_world [])) = Inr 1
   \<and> get_session_history (ex_env (Inr [])) ''s1''
        (snd (add_message (ex_env (Inr [])) ''s1'' User (PStr ''Hi'') (PDict []) (ex_world [])))
      = Inr [\<lparr> h_id = 1, h_role = User, h_content = ''Hi'', h_metadata = PNone,
                h_created_at = Some 100 \<rparr>]"
proof -
  let ?E = "ex_env (Inr [])"
  let ?m = "\<lparr> msg_id = 1, msg_session_id = ''s1'', msg_role = User, msg_content = ''Hi'',
             msg_metadata_json = None, msg_created_at = 100 \<rparr>"
  define w' where "w' = snd (add_message ?E ''s1'' User (PStr ''Hi'') (PDict []) (ex_world []))"
  have add: "add_message ?E ''s1'' User (PStr ''Hi'') (PDict []) (ex_world []) = (Inr 1, w')"
    by (simp add: w'_def ex_add2)
  have ms: "messages (db w') = [?m]"
    by (simp add: w'_def ex_add2)
  have rows: "session_rows w' ''s1'' = [?m]"
    by (simp add: session_rows_def ms)
  have fresh: "\<forall>m \<in> set (messages (db (ex_world []))). msg_id m \<noteq> next_id (db (ex_world []))"
    by (simp add: ex_world_def)
  have ord: "sql_asc (session_rows w' ''s1'') (order_by_created_at_asc ?E (session_rows w' ''s1''))"
    by (simp add: rows sql_asc_def ex_env_simps stable_asc_def)
  have hist: "get_session_history ?E ''s1'' w' = Inr [\<lparr> h_id = 1, h_role = User,
             h_content = ''Hi'', h_metadata = PNone, h_created_at = Some 100 \<rparr>]"
    by (simp add: get_session_history_def rows ex_env_simps stable_asc_def entry_of_def
        entry_metadata_def)
  have r: "fst (add_message ?E ''s1'' User (PStr ''Hi'') (PDict []) (ex_world [])) = Inr 1"
    using add by simp
  from empty_metadata_reads_back_None [OF add fresh ord hist]
  have "\<exists>m. messages (db w') = messages (db (ex_world [])) @ [m] \<and> msg_id m = 1
            \<and> msg_metadata_json m = None" ..
  with r hist [unfolded w'_def] show ?thesis by blast
qed

section \<open>The metadata round trip\<close>

text \<open>
  Claim C6. A message appended by \<open>add_message\<close> with a non-empty metadata dictionary is
  returned by \<open>get_session_history\<close> with a metadata value equal to the dictionary that
  was passed in. What \<open>json.dumps\<close> and \<open>json.loads\<close> do is not code of the repository:
  the theorem asks of them that the text of this dictionary is not empty and parses back
  to it.
\<close>

theorem metadata_round_trip:
  assumes add: "add_message E session_id r content (PDict kvs) w = (Inr i, w')"
    and nonempty: "kvs \<noteq> []"
    and text_nonempty: "json_dumps E (PDict kvs) \<noteq> []"
    and round_trip: "json_loads E (json_dumps E (PDict kvs)) = Inr (PDict kvs)"
    and fresh: "\<forall>m \<in> set (messages (db w)). msg_id m \<noteq> next_id (db w)"
    and ord: "sql_asc (session_rows w' session_id)
                (order_by_created_at_asc E (session_rows w' session_id))"
    and hist: "get_session_history E session_id w' = Inr h"
  shows "(\<exists>e \<in> set h. h_id e = i) \<and> (\<forall>e \<in> set h. h_id e = i \<longrightarrow> h_metadata e = PDict kvs)"
proof -
  from history_of_appended [OF add fresh ord hist] obtain body where
    ex: "\<exists>e \<in> set h. h_id e = i"
    and all: "\<forall>e \<in> set h. h_id e = i \<longrightarrow>
                entry_of E (new_message E session_id r body (PDict kvs) w) = Inr e"
    by blast
  let ?m = "new_message E session_id r body (PDict kvs) w"
  have mj: "msg_metadata_json ?m = Some (json_dumps E (PDict kvs))"
    using nonempty by (simp add: new_message_def)
  have "entry_metadata E (msg_metadata_json ?m) = Inr (PDict kvs)"
    using text_nonempty round_trip by (simp add: mj entry_metadata_def py_json_loads_def)
  then have "h_metadata e = PDict kvs" if "entry_of E ?m = Inr e" for e
    using entry_of_fields [OF that] by simp
  with ex all show ?thesis by blast
qed

theorem metadata_round_trip_witness:
  "fst (add_message (ex_env (Inr [])) ''s1'' User (PStr ''Hi'') (PDict [(''a'', PInt 1)])
         (ex_world [])) = Inr 1
   \<and> get_session_history (ex_env (Inr [])) ''s1''
        (snd (add_message (ex_env (Inr [])) ''s1'' User (PStr ''Hi'') (PDict [(''a'', PInt 1)])
               (ex_world [])))
      = Inr [\<lparr> h_id = 1, h_role = User, h_content = ''Hi'',
                h_metadata = PDict [(''a'', PInt 1)], h_created_at = Some 100 \<rparr>]"
proof -
  let ?E = "ex_env (Inr [])"
  let ?md = "PDict [(''a'', PInt 1)]"
  let ?m = "\<lparr> msg_id = 1, msg_session_id = ''s1'', msg_role = User, msg_content = ''Hi'',
             msg_metadata_json = Some (ex_dumps ?md), msg_created_at = 100 \<rparr>"
  define w' where "w' = snd (add_message ?E ''s1'' User (PStr ''Hi'') ?md (ex_world []))"
  have add: "add_message ?E ''s1'' User (PStr ''Hi'') ?md (ex_world []) = (Inr 1, w')"
    by (simp add: w'_def ex_add2)
  have ms: "messages (db w') = [?m]"
    by (simp add: w'_def ex_add2)
  have rows: "session_rows w' ''s1'' = [?m]"
    by (simp add: session_rows_def ms)
  have ne: "[(''a'', PInt 1)] \<noteq> []" by simp
  have tn: "json_dumps ?E ?md \<noteq> []"
    by (simp add: ex_env_simps ex_dumps_def)
  have rt: "json_loads ?E (json_dumps ?E ?md) = Inr ?md"
    by (simp add: ex_env_simps ex_dumps_def ex_loads_def)
  have fresh: "\<forall>m \<in> set (messages (db (ex_world []))). msg_id m \<noteq> next_id (db (ex_world []))"
    by (simp add: ex_world_def)
  have ord: "sql_asc (session_rows w' ''s1'') (order_by_created_at_asc ?E (session_rows w' ''s1''))"
    by (simp add: rows sql_asc_def ex_env_simps stable_asc_def)
  have hist: "get_session_history ?E ''s1'' w' = Inr [\<lparr> h_id = 1, h_role = User,
             h_content = ''Hi'', h_metadata = ?md, h_created_at = Some 100 \<rparr>]"
    by (simp add: get_session_history_def rows ex_env_simps stable_asc_def entry_of_def
        entry_metadata_def py_json_loads_def ex_dumps_def ex_loads_def)
  have r: "fst (add_message ?E ''s1'' User (PStr ''Hi'') ?md (ex_world [])) = Inr 1"
    using add by simp
  from metadata_round_trip [OF add ne tn rt fresh ord hist]
  have "\<exists>e \<in> set [\<lparr> h_id = 1, h_role = User,
             h_content = ''Hi'', h_metadata = ?md, h_created_at = Some 100 \<rparr>]. h_id e = 1" ..
  with r hist [unfolded w'_def] show ?thesis by blast
qed

section \<open>The sliding window and the full history\<close>






section \<open>The generation call\<close>

lemma create_completion_ok:
  assumes "GROQ_API_KEY E \<noteq> []" and "groq_create E req = Inr (Some content # rest)"
  shows "create_completion E req w = (Inr (strip content), w \<lparr> llm_calls := llm_calls w @ [req] \<rparr>)"
  using assms by (simp add: create_completion_def get_client_def Let_def)

lemma create_completion_error:
  assumes "GROQ_API_KEY E \<noteq> []" and "groq_create E req = Inl e"
  shows "create_completion E req w = (Inl e, w \<lparr> llm_calls := llm_calls w @ [req] \<rparr>)"
  using assms by (simp add: create_completion_def get_client_def Let_def)

section \<open>The translation step\<close>





section \<open>Phase 1: errors of the generation service\<close>

text \<open>
  Claim C5. When the phase-1 generation call fails with an exception that is not a
  \<open>JSONDecodeError\<close>, \<open>try_answer_from_history\<close> raises a \<open>RuntimeError\<close> labeled
  \<open>LLM error\<close> whose cause is that exception. The call was issued exactly once (the log
  grows by the one phase-1 request: no retry), and the outcome is an error, not the
  failure value.
\<close>

theorem phase1_service_error_is_labeled:
  assumes "history \<noteq> []"
    and "GROQ_API_KEY E \<noteq> []"
    and "groq_create E (history_request question history) = Inl e"
    and "exn_class e \<noteq> JSONDecodeError"
  shows "try_answer_from_history E question history w
           = (Inl (Exn RuntimeError ''LLM error: '' (Some e)),
              w \<lparr> llm_calls := llm_calls w @ [history_request question history] \<rparr>)"
  using assms
  by (simp add: try_answer_from_history_def phase1_try_def create_completion_error)

lemma ex_request_phase1: "req_temperature (history_request q h) = 2 / 10"
  by (simp add: history_request_def Let_def)

theorem phase1_service_error_is_labeled_witness:
  "try_answer_from_history (ex_env (Inl (Exn ConnectionError ''connection refused'' None)))
      ''And its population?'' [\<lparr> turn_role = User, turn_content = ''Which city?'' \<rparr>] (ex_world [])
     = (Inl (Exn RuntimeError ''LLM error: ''
               (Some (Exn ConnectionError ''connection refused'' None))),
        ex_world [] \<lparr> llm_calls := llm_calls (ex_world []) @
           [history_request ''And its population?''
              [\<lparr> turn_role = User, turn_content = ''Which city?'' \<rparr>]] \<rparr>)"
proof -
  let ?E = "ex_env (Inl (Exn ConnectionError ''connection refused'' None))"
  let ?h = "[\<lparr> turn_role = User, turn_content = ''Which city?'' \<rparr>]"
  have 1: "?h \<noteq> []" by simp
  have 2: "GROQ_API_KEY ?E \<noteq> []" by (simp add: ex_env_simps)
  have 3: "groq_create ?E (history_request ''And its population?'' ?h)
             = Inl (Exn ConnectionError ''connection refused'' None)"
    by (simp add: ex_env_simps ex_request_phase1)
  have 4: "exn_class (Exn ConnectionError ''connection refused'' None) \<noteq> JSONDecodeError"
    by simp
  from phase1_service_error_is_labeled [OF 1 2 3 4] show ?thesis .
qed

section \<open>Phase 1: responses that do not follow the contract\<close>

lemma phase1_try_parsed:
  assumes "GROQ_API_KEY E \<noteq> []" and "groq_create E req = Inr (Some content # rest)"
  shows "phase1_try E req w =
     (let w' = w \<lparr> llm_calls := llm_calls w @ [req] \<rparr>
      in case py_json_loads E (strip content) of
             Inl e \<Rightarrow> (Inl e, w')
           | Inr result \<Rightarrow>
               (case lacks_field result of
                  Inl e \<Rightarrow> (Inl e, w')
                | Inr True \<Rightarrow> (Inr failure_result, w')
                | Inr False \<Rightarrow>
                    (case py_getitem result ''status'' of
                       Inl e \<Rightarrow> (Inl e, w')
                     | Inr _ \<Rightarrow> (Inr result, w'))))"
  using assms by (simp add: phase1_try_def create_completion_ok Let_def)

text \<open>
  A response that is not valid JSON, and a response that parses to a dictionary without
  the key \<open>status\<close> or without the key \<open>content\<close>, both give the failure value after the
  one call.
\<close>

lemma phase1_malformed_is_failure:
  assumes "history \<noteq> []"
    and "GROQ_API_KEY E \<noteq> []"
    and "groq_create E (history_request question history) = Inr (Some content # rest)"
    and "(\<exists>m. json_loads E (strip content) = Inl m)
       \<or> (\<exists>kvs. json_loads E (strip content) = Inr (PDict kvs)
               \<and> (map_of kvs ''status'' = None \<or> map_of kvs ''content'' = None))"
  shows "try_answer_from_history E question history w
           = (Inr failure_result,
              w \<lparr> llm_calls := llm_calls w @ [history_request question history] \<rparr>)"
  using assms
  by (auto simp: try_answer_from_history_def phase1_try_parsed py_json_loads_def
      lacks_field_def Let_def)

text \<open>
  Claim C2 says that every phase-1 response that is not valid JSON, or that parses as JSON
  but lacks the \<open>status\<close> or the \<open>content\<close> field, makes \<open>try_answer_from_history\<close>
  return the failure value without raising. The response \<open>42\<close> parses as JSON and has
  neither field; the test \<open>"status" not in result\<close> on a number raises \<open>TypeError\<close>,
  which the last handler turns into a \<open>RuntimeError\<close>.
\<close>

theorem phase1_json_number_raises:
  "try_answer_from_history (ex_env (Inr [Some ''42'']))
      ''And its population?'' [\<lparr> turn_role = User, turn_content = ''Which city?'' \<rparr>] (ex_world [])
     = (Inl (Exn RuntimeError ''LLM error: ''
               (Some (Exn TypeError ''argument is not iterable'' None))),
        ex_world [] \<lparr> llm_calls := llm_calls (ex_world []) @
           [history_request ''And its population?''
              [\<lparr> turn_role = User, turn_content = ''Which city?'' \<rparr>]] \<rparr>)"
proof -
  let ?E = "ex_env (Inr [Some ''42''])"
  let ?h = "[\<lparr> turn_role = User, turn_content = ''Which city?'' \<rparr>]"
  have k: "GROQ_API_KEY ?E \<noteq> []" by (simp add: ex_env_simps)
  have g: "groq_create ?E (history_request ''And its population?'' ?h) = Inr (Some ''42'' # [])"
    by (simp add: ex_env_simps ex_request_phase1)
  have s: "strip ''42'' = ''42''" by (simp add: strip_def is_space_def)
  have l: "py_json_loads ?E ''42'' = Inr (PInt 42)"
    by (simp add: py_json_loads_def ex_env_simps ex_loads_def)
  show ?thesis
    by (simp add: try_answer_from_history_def phase1_try_parsed [OF k g] s l lacks_field_def)
qed

section \<open>What each step leaves unchanged\<close>









section \<open>Reading a successful traversal backwards\<close>


lemma run_text_Inr:
  assumes "run_text E message sid w = (Inr res, w')"
  shows "\<exists>w1. answer_question E message (get_recent_messages E sid SLIDING_WINDOW_SIZE w) w
                 = (Inr (rt_answer res, rt_source res, rt_retrieved_chunks res), w1)
            \<and> persist_messages E sid message (PDict [(''input_type'', PStr ''text'')])
                 (rt_answer res) (rt_source res) (rt_retrieved_chunks res) w1 = (Inr (), w')"
  using assms
  by (auto simp: run_text_def Let_def split: prod.splits sum.splits)




section \<open>The status field decides the path\<close>

text \<open>
  Claim C9. When the phase-1 response parses as a JSON object that has both the
  \<open>status\<close> and the \<open>content\<close> key, \<open>try_answer_from_history\<close> returns the object. If
  the status is the string \<open>success\<close>, the engine's answer is the content field and its
  source is \<open>history\<close>; for any other status value the engine is on the retrieval path, and
  the only errors are those of the retrieval path itself. For \<open>run_text\<close>: a traversal
  that returns has source \<open>history\<close> if and only if the status is \<open>success\<close>.
\<close>

theorem status_success_selects_history_path:
  assumes hist: "history \<noteq> []"
    and key: "GROQ_API_KEY E \<noteq> []"
    and resp: "groq_create E (history_request question history) = Inr (Some content # rest)"
    and parsed: "json_loads E (strip content) = Inr (PDict kvs)"
    and st: "map_of kvs ''status'' = Some status"
    and ct: "map_of kvs ''content'' = Some answer"
  shows "try_answer_from_history E question history w
           = (Inr (PDict kvs), w \<lparr> llm_calls := llm_calls w @ [history_request question history] \<rparr>)
       \<and> (status = PStr ''success'' \<longrightarrow>
            answer_question E question history w
              = (Inr (answer, ''history'', None),
                 w \<lparr> llm_calls := llm_calls w @ [history_request question history] \<rparr>))
       \<and> (status \<noteq> PStr ''success'' \<longrightarrow>
            answer_question E question history w
              = (case answer_with_retrieval E question history TOP_K_RETRIEVAL
                        (w \<lparr> llm_calls := llm_calls w @ [history_request question history] \<rparr>) of
                   (Inl e, w2) \<Rightarrow> (Inl e, w2)
                 | (Inr (a, chunks), w2) \<Rightarrow> (Inr (PStr a, ''vectordb'', Some chunks), w2)))
       \<and> (\<forall>session_id res w'.
              history = get_recent_messages E session_id SLIDING_WINDOW_SIZE w
              \<and> run_text E question session_id w = (Inr res, w') \<longrightarrow>
                (rt_source res = ''history'' \<longleftrightarrow> status = PStr ''success'')
                \<and> (status = PStr ''success'' \<longrightarrow> rt_answer res = answer))"
proof -
  let ?w1 = "w \<lparr> llm_calls := llm_calls w @ [history_request question history] \<rparr>"
  have l: "py_json_loads E (strip content) = Inr (PDict kvs)"
    using parsed by (simp add: py_json_loads_def)
  have f: "lacks_field (PDict kvs) = Inr False"
    using st ct by (simp add: lacks_field_def)
  have t: "try_answer_from_history E question history w = (Inr (PDict kvs), ?w1)"
    using hist st
    by (simp add: try_answer_from_history_def phase1_try_parsed [OF key resp] l f Let_def)
  have yes: "answer_question E question history w = (Inr (answer, ''history'', None), ?w1)"
    if "status = PStr ''success''"
    using st ct that by (simp add: t answer_question_def)
  have no: "answer_question E question history w
              = (case answer_with_retrieval E question history TOP_K_RETRIEVAL ?w1 of
                   (Inl e, w2) \<Rightarrow> (Inl e, w2)
                 | (Inr (a, chunks), w2) \<Rightarrow> (Inr (PStr a, ''vectordb'', Some chunks), w2))"
    if "status \<noteq> PStr ''success''"
    using st ct that by (simp add: t answer_question_def)
  have top: "(rt_source res = ''history'' \<longleftrightarrow> status = PStr ''success'')
             \<and> (status = PStr ''success'' \<longrightarrow> rt_answer res = answer)"
    if h: "history = get_recent_messages E session_id SLIDING_WINDOW_SIZE w"
      and r: "run_text E question session_id w = (Inr res, w')"
    for session_id res w'
  proof -
    from run_text_Inr [OF r] h obtain w1 where
      aq: "answer_question E question history w
             = (Inr (rt_answer res, rt_source res, rt_retrieved_chunks res), w1)"
      by auto
    show ?thesis
    proof (cases "status = PStr ''success''")
      case True
      with yes aq show ?thesis by simp
    next
      case False
      with no aq have "rt_source res = ''vectordb''"
        by (auto split: prod.splits sum.splits)
      with False show ?thesis by simp
    qed
  qed
  from t yes no top show ?thesis by blast
qed

lemma ex_groq_phase2:
  "groq_create (ex_env p) (retrieval_request q h c) = Inr (Some ''It is Paris.'' # [])"
  by (simp add: ex_env_simps retrieval_request_def Let_def)

lemma ex_retrieval:
  "answer_with_retrieval (ex_env p) q h k (ex_world rows \<lparr> llm_calls := calls \<rparr>)
     = (Inr (''It is Paris.'', ex_chunks),
        ex_world rows \<lparr> llm_calls := calls @ [retrieval_request q h ex_chunks],
                        vector_queries := [(q, k)] \<rparr>)"
proof -
  have k: "GROQ_API_KEY (ex_env p) \<noteq> []" by (simp add: ex_env_simps)
  have s: "strip ''It is Paris.'' = ''It is Paris.''" by (simp add: strip_def is_space_def)
  show ?thesis
    by (simp add: answer_with_retrieval_def step3_retrieve_def
        create_completion_ok [OF k ex_groq_phase2] s ex_env_simps ex_world_def)
qed

theorem status_success_selects_history_path_witness:
  "answer_question (ex_env (Inr [Some ex_success_response]))
      ''And the capital?'' [\<lparr> turn_role = User, turn_content = ''Which city?'' \<rparr>] (ex_world [])
     = (Inr (PStr ''Paris'', ''history'', None),
        ex_world [] \<lparr> llm_calls := llm_calls (ex_world []) @
           [history_request ''And the capital?''
              [\<lparr> turn_role = User, turn_content = ''Which city?'' \<rparr>]] \<rparr>)
   \<and> fst (answer_question (ex_env (Inr [Some ex_partial_response]))
      ''And the capital?'' [\<lparr> turn_role = User, turn_content = ''Which city?'' \<rparr>] (ex_world []))
     = Inr (PStr ''It is Paris.'', ''vectordb'', Some ex_chunks)"
proof -
  let ?yes = "ex_success_response"
  let ?no = "ex_partial_response"
  let ?h = "[\<lparr> turn_role = User, turn_content = ''Which city?'' \<rparr>]"
  let ?q = "''And the capital?''"
  have h: "?h \<noteq> []" by simp
  have k: "GROQ_API_KEY (ex_env p) \<noteq> []" for p by (simp add: ex_env_simps)
  have g: "groq_create (ex_env (Inr [Some c])) (history_request ?q ?h) = Inr (Some c # [])" for c
    by (simp add: ex_env_simps ex_request_phase1)
  have sy: "strip ?yes = ?yes" and sn: "strip ?no = ?no"
    by (simp_all add: strip_def is_space_def ex_success_response_def ex_partial_response_def)
  have py: "json_loads (ex_env p) (strip ?yes)
              = Inr (PDict [(''status'', PStr ''success''), (''content'', PStr ''Paris'')])" for p
    unfolding sy by (simp add: ex_env_simps ex_loads_def ex_success_response_def)
  have pn: "json_loads (ex_env p) (strip ?no)
              = Inr (PDict [(''status'', PStr ''partial''), (''content'', PStr ''Paris'')])" for p
    unfolding sn by (simp add: ex_env_simps ex_loads_def ex_success_response_def
        ex_partial_response_def)
  have sty: "map_of [(''status'', PStr ''success''), (''content'', PStr ''Paris'')] ''status''
               = Some (PStr ''success'')"
    and cty: "map_of [(''status'', PStr ''success''), (''content'', PStr ''Paris'')] ''content''
               = Some (PStr ''Paris'')"
    and stn: "map_of [(''status'', PStr ''partial''), (''content'', PStr ''Paris'')] ''status''
               = Some (PStr ''partial'')"
    and ctn: "map_of [(''status'', PStr ''partial''), (''content'', PStr ''Paris'')] ''content''
               = Some (PStr ''Paris'')"
    by simp_all
  from status_success_selects_history_path [OF h k g py sty cty, of "ex_world []"]
  have a: "answer_question (ex_env (Inr [Some ?yes])) ?q ?h (ex_world [])
     = (Inr (PStr ''Paris'', ''history'', None),
        ex_world [] \<lparr> llm_calls := llm_calls (ex_world []) @ [history_request ?q ?h] \<rparr>)"
    by blast
  have ne: "PStr ''partial'' \<noteq> PStr ''success''" by simp
  from status_success_selects_history_path [OF h k g pn stn ctn, of "ex_world []"] ne
  have "answer_question (ex_env (Inr [Some ?no])) ?q ?h (ex_world [])
     = (case answer_with_retrieval (ex_env (Inr [Some ?no])) ?q ?h TOP_K_RETRIEVAL
              (ex_world [] \<lparr> llm_calls := llm_calls (ex_world []) @ [history_request ?q ?h] \<rparr>) of
          (Inl e, w2) \<Rightarrow> (Inl e, w2)
        | (Inr (a, chunks), w2) \<Rightarrow> (Inr (PStr a, ''vectordb'', Some chunks), w2))"
    by blast
  then have b: "fst (answer_question (ex_env (Inr [Some ?no])) ?q ?h (ex_world []))
     = Inr (PStr ''It is Paris.'', ''vectordb'', Some ex_chunks)"
    by (simp add: ex_retrieval)
  from a b show ?thesis by simp
qed

section \<open>When persisting succeeds, and which requests a traversal sends\<close>








section \<open>An empty history window\<close>




section \<open>What a successful traversal persists\<close>




end
